theory Spec2Isabelle
  imports Complex_Main "HOL-Library.Word"
begin

unbundle bit_operations_syntax

section \<open>Bytes, hexadecimal text and Python's formatting\<close>

text \<open>
  A Python \<open>bytes\<close> value is a list of 8-bit words; a Python \<open>int\<close> is an \<open>int\<close>.
  Reading an element of a \<open>bytes\<close> value gives an \<open>int\<close> in \<open>0..255\<close>, which is \<open>uint\<close>.
  A \<open>str\<close> is a \<open>string\<close>; every string the driver builds or compares against is ASCII.
\<close>

type_synonym byte = "8 word"

text \<open>The exception classes the driver raises or lets through.\<close>

datatype sock_exc = BlockingIOError | SocketTimeout | OtherOSError

datatype error =
    ValueError
  | OverflowError
  | IndexError
  | ConnectionError
  | ViscaException int string
  | SocketError sock_exc

text \<open>A bytes literal such as \<open>b"Invalid zoom response"\<close>: one byte per character.\<close>

definition bytes_of :: "string \<Rightarrow> byte list" where
  "bytes_of s = map (\<lambda>c. of_char c) s"

text \<open>The lower-case hexadecimal digit of a value below 16 (\<open>0-9\<close> are 48..57, \<open>a-f\<close> are 97..102).\<close>

definition hexdigit :: "nat \<Rightarrow> char" where
  "hexdigit d = char_of (if d < 10 then 48 + d else 87 + d)"

text \<open>The value of a hexadecimal digit, either case; \<open>None\<close> for any other character.\<close>

definition hexval :: "char \<Rightarrow> nat option" where
  "hexval c =
     (let n = (of_char c :: nat)
      in if 48 \<le> n \<and> n \<le> 57 then Some (n - 48)
         else if 97 \<le> n \<and> n \<le> 102 then Some (n - 87)
         else if 65 \<le> n \<and> n \<le> 70 then Some (n - 55)
         else None)"

text \<open>The digits of a natural number in base 16, most significant first, no padding.\<close>

fun hexstr :: "nat \<Rightarrow> string" where
  "hexstr n = (if n < 16 then [hexdigit n] else hexstr (n div 16) @ [hexdigit (n mod 16)])"

declare hexstr.simps [simp del]

text \<open>
  Python's format specifications \<open>x\<close>, \<open>02x\<close> and \<open>04x\<close> on an \<open>int\<close>: a minus sign for
  a negative value, then the digits of the magnitude, zero-filled between the sign and the
  digits up to the width (the width counts the sign). \<open>x\<close> alone is width 0.
\<close>

definition format_x :: "nat \<Rightarrow> int \<Rightarrow> string" where
  "format_x width n =
     (let digits = hexstr (nat \<bar>n\<bar>);
          sign = (if n < 0 then ''-'' else '''')
      in sign @ replicate (width - (length sign + length digits)) (CHR ''0'') @ digits)"

text \<open>\<open>s.replace(' ', '')\<close>.\<close>

definition remove_spaces :: "string \<Rightarrow> string" where
  "remove_spaces s = filter (\<lambda>c. c \<noteq> CHR '' '') s"

text \<open>
  \<open>bytes.fromhex\<close> on a string whose spaces have been removed: two hexadecimal digits per
  byte; an odd digit left over or any other character raises \<open>ValueError\<close>. (The library
  function also skips ASCII whitespace between bytes; the driver removes the spaces first and
  builds its strings from hexadecimal digits, spaces and the minus sign only.)
\<close>

fun fromhex :: "string \<Rightarrow> error + byte list" where
  "fromhex [] = Inr []"
| "fromhex [c] = Inl ValueError"
| "fromhex (c # d # cs) =
     (case (hexval c, hexval d) of
        (Some h, Some l) \<Rightarrow>
          (case fromhex cs of
             Inl e \<Rightarrow> Inl e
           | Inr bs \<Rightarrow> Inr (of_nat (16 * h + l) # bs))
      | _ \<Rightarrow> Inl ValueError)"

text \<open>\<open>' '.join(parts)\<close>.\<close>

fun join_space :: "string list \<Rightarrow> string" where
  "join_space [] = []"
| "join_space [p] = p"
| "join_space (p # q # ps) = p @ '' '' @ join_space (q # ps)"

section \<open>The numeric codec\<close>

text \<open>
  \<open>pos.to_bytes(2, 'big', signed=True)\<close>: the two bytes of the two's complement of
  \<open>pos\<close>, high byte first; \<open>OverflowError\<close> outside the signed 16-bit range.
\<close>

definition to_bytes_2_big_signed :: "int \<Rightarrow> error + int list" where
  "to_bytes_2_big_signed pos =
     (if pos < - 32768 \<or> 32767 < pos then Inl OverflowError
      else let u = pos mod 65536 in Inr [u div 256, u mod 256])"

text \<open>
  \<open>encode_position\<close>, the helper nested in \<open>pantilt\<close>: for each of the two bytes
  \<open>b\<close> the text \<open>0{b >> 4:x} 0{b & 0xf:x}\<close>, the two joined by a space.
\<close>

definition encode_position :: "int \<Rightarrow> error + string" where
  "encode_position pos =
     (case to_bytes_2_big_signed pos of
        Inl e \<Rightarrow> Inl e
      | Inr pos_bytes \<Rightarrow>
          Inr (join_space
                 (map (\<lambda>b. ''0'' @ format_x 0 (drop_bit 4 b) @ '' 0'' @ format_x 0 (b AND 15))
                    pos_bytes)))"

text \<open>
  \<open>decode_position\<close>, the helper nested in \<open>get_pantilt_position\<close>: the low nibbles of
  \<open>data[0..3]\<close> reassembled, read as two's complement. Indexing a shorter \<open>bytes\<close>
  raises \<open>IndexError\<close>.
\<close>

fun decode_position :: "byte list \<Rightarrow> error + int" where
  "decode_position (d0 # d1 # d2 # d3 # _) =
     (let v = push_bit 12 (uint d0 AND 15) OR push_bit 8 (uint d1 AND 15)
                OR push_bit 4 (uint d2 AND 15) OR (uint d3 AND 15)
      in Inr (if v \<ge> 32768 then v - 65536 else v))"
| "decode_position _ = Inl IndexError"

section \<open>The exception raised on a device error\<close>

text \<open>The table \<open>descriptions\<close> of \<open>ViscaException.__init__\<close>.\<close>

definition descriptions :: "(int \<times> string) list" where
  "descriptions =
     [(1, ''Message length error''),
      (2, ''Syntax error''),
      (3, ''Command buffer full''),
      (4, ''Command cancelled''),
      (5, ''No socket''),
      (0x41, ''Command not executable''),
      (0x76, ''Position limit exceeded or command blocked'')]"

text \<open>
  \<open>ViscaException(response_body)\<close> for a \<open>bytes\<close> argument: the status code is the
  third byte when there are at least three, otherwise \<open>-1\<close>; the description comes from the
  table, with the text \<open>Unknown error code 0x..\<close> for a code that is not in it. The value
  \<open>ViscaException code description\<close> carries the two attributes of the exception.
\<close>

definition ViscaException_init :: "byte list \<Rightarrow> error" where
  "ViscaException_init response_body =
     (let status_code = (if length response_body \<ge> 3 then uint (response_body ! 2) else - 1);
          description = (case map_of descriptions status_code of
                           Some d \<Rightarrow> d
                         | None \<Rightarrow> ''Unknown error code 0x'' @ format_x 2 status_code)
      in ViscaException status_code description)"

section \<open>The socket and the camera object\<close>

text \<open>
  The socket is the driver's only collaborator. Its state is the script of what the
  successive \<open>recv\<close> calls return or raise (\<open>incoming\<close>), the log of the byte strings
  handed to \<open>send\<close>, oldest first (\<open>sent\<close>), its blocking mode, and whether its
  \<open>close\<close> raises. A script that has run out is a silent peer: \<open>recv\<close> raises
  \<open>BlockingIOError\<close> on a non-blocking socket and times out otherwise.
\<close>

datatype recv_event = Data "byte list" | Raises sock_exc

datatype sock_mode = NonBlocking | Blocking | TimeoutMode rat

record socket =
  incoming :: "recv_event list"
  sent :: "byte list list"
  mode :: sock_mode
  close_raises :: bool

text \<open>The fields \<open>_ip\<close>, \<open>_port\<close>, \<open>_timeout\<close> and \<open>_sock\<close> of \<open>TcpCamera\<close>.\<close>

record tcp_camera =
  ip :: string
  port :: int
  timeout :: rat
  sock :: "socket option"

definition sock_recv :: "socket \<Rightarrow> (sock_exc + byte list) \<times> socket" where
  "sock_recv k =
     (case incoming k of
        [] \<Rightarrow> (Inl (if mode k = NonBlocking then BlockingIOError else SocketTimeout), k)
      | Data d # rest \<Rightarrow> (Inr d, k\<lparr>incoming := rest\<rparr>)
      | Raises e # rest \<Rightarrow> (Inl e, k\<lparr>incoming := rest\<rparr>))"

definition sock_send :: "byte list \<Rightarrow> socket \<Rightarrow> socket" where
  "sock_send bs k = k\<lparr>sent := sent k @ [bs]\<rparr>"

definition sock_close :: "socket \<Rightarrow> sock_exc + unit" where
  "sock_close k = (if close_raises k then Inl OtherOSError else Inr ())"

text \<open>\<open>TcpCamera.__init__\<close>.\<close>

definition init :: "string \<Rightarrow> int \<Rightarrow> rat \<Rightarrow> tcp_camera" where
  "init ip0 port0 timeout0 = \<lparr>ip = ip0, port = port0, timeout = timeout0, sock = None\<rparr>"

text \<open>
  \<open>connect\<close>. The argument \<open>net\<close> is what creating the socket, setting its timeout and
  connecting it to \<open>(ip, port)\<close> comes to: an exception, or the connected socket. Any
  exception resets \<open>_sock\<close> to \<open>None\<close> and is raised again as \<open>ConnectionError\<close>.
\<close>

definition connect :: "sock_exc + socket \<Rightarrow> tcp_camera \<Rightarrow> (error + bool) \<times> tcp_camera" where
  "connect net s =
     (case net of
        Inr k \<Rightarrow> (Inr True, s\<lparr>sock := Some (k\<lparr>mode := TimeoutMode (timeout s)\<rparr>)\<rparr>)
      | Inl e \<Rightarrow> (Inl ConnectionError, s\<lparr>sock := None\<rparr>))"

text \<open>
  \<open>close_connection\<close>: with a socket present, the socket is closed inside
  \<open>try ... except: pass\<close> and \<open>_sock\<close> is set to \<open>None\<close>.
\<close>

definition close_connection :: "tcp_camera \<Rightarrow> (error + unit) \<times> tcp_camera" where
  "close_connection s =
     (case sock s of
        None \<Rightarrow> (Inr (), s)
      | Some k \<Rightarrow>
          (case sock_close k of
             Inr _ \<Rightarrow> (Inr (), s\<lparr>sock := None\<rparr>)
           | Inl e \<Rightarrow> (Inr (), s\<lparr>sock := None\<rparr>)))"

text \<open>
  The loop of \<open>_flush_input\<close> on the script of the non-blocking socket: read until a read
  returns no data or raises; \<open>BlockingIOError\<close> and every other socket error are caught.
\<close>

fun drain :: "recv_event list \<Rightarrow> recv_event list" where
  "drain [] = []"
| "drain (Data d # rest) = (if d = [] then rest else drain rest)"
| "drain (Raises e # rest) = rest"

text \<open>
  \<open>_flush_input\<close>: nothing without a socket; otherwise the loop, and in the \<open>finally\<close>
  clause the socket is made blocking again with the configured timeout.
\<close>

definition flush_input :: "tcp_camera \<Rightarrow> tcp_camera" where
  "flush_input s =
     (case sock s of
        None \<Rightarrow> s
      | Some k \<Rightarrow>
          s\<lparr>sock := Some (k\<lparr>incoming := drain (incoming k), mode := TimeoutMode (timeout s)\<rparr>)\<rparr>)"

text \<open>
  \<open>_send_command\<close>. The read after the send runs on the socket that \<open>_flush_input\<close> has
  just put back into timeout mode; only the timeout is caught there.
\<close>

definition send_command ::
  "string \<Rightarrow> bool \<Rightarrow> tcp_camera \<Rightarrow> (error + byte list option) \<times> tcp_camera" where
  "send_command command_hex query s =
     (if sock s = None then (Inl ConnectionError, s)
      else
        let s1 = flush_input s;
            preamble = (if query then ''81 09'' else ''81 01'');
            full_command = preamble @ '' '' @ command_hex @ '' FF''
        in case fromhex (remove_spaces full_command) of
             Inl e \<Rightarrow> (Inl e, s1)
           | Inr command_bytes \<Rightarrow>
               (case sock s1 of
                  None \<Rightarrow> (Inl ConnectionError, s1)
                | Some k1 \<Rightarrow>
                    (case sock_recv (sock_send command_bytes k1) of
                       (Inl SocketTimeout, k2) \<Rightarrow> (Inr None, s1\<lparr>sock := Some k2\<rparr>)
                     | (Inl e, k2) \<Rightarrow> (Inl (SocketError e), s1\<lparr>sock := Some k2\<rparr>)
                     | (Inr response, k2) \<Rightarrow>
                         let s2 = s1\<lparr>sock := Some k2\<rparr>
                         in if response = [] then (Inr None, s2)
                            else if length response \<ge> 3 \<and> uint (response ! 1) AND 0xF0 = 0x60
                              then (Inl (ViscaException_init response), s2)
                            else if query \<and> length response > 3
                              then (Inr (Some (drop 2 (butlast response))), s2)
                            else (Inr (Some response), s2))))"

text \<open>A call whose result is dropped: the exception, if any, still propagates.\<close>

definition discard :: "(error + 'a) \<times> tcp_camera \<Rightarrow> (error + unit) \<times> tcp_camera" where
  "discard r = (case r of (Inl e, s) \<Rightarrow> (Inl e, s) | (Inr _, s) \<Rightarrow> (Inr (), s))"

text \<open>\<open>not response\<close> on an optional \<open>bytes\<close>: true for \<open>None\<close> and for \<open>b''\<close>.\<close>

definition falsy :: "byte list option \<Rightarrow> bool" where
  "falsy response = (case response of None \<Rightarrow> True | Some bs \<Rightarrow> bs = [])"

section \<open>Pan and tilt\<close>

text \<open>The helper \<open>direction\<close> nested in \<open>pantilt\<close>.\<close>

definition direction :: "int \<Rightarrow> string" where
  "direction speed = (if speed < 0 then ''01'' else if speed > 0 then ''02'' else ''03'')"

text \<open>
  \<open>pantilt\<close>. An omitted position is \<open>None\<close>. The speeds are checked first; the two
  positions are encoded, in this order, while the command text is built, before
  \<open>_send_command\<close> is called.
\<close>

definition pantilt ::
  "int \<Rightarrow> int \<Rightarrow> int option \<Rightarrow> int option \<Rightarrow> bool \<Rightarrow> tcp_camera
     \<Rightarrow> (error + unit) \<times> tcp_camera" where
  "pantilt pan_speed tilt_speed pan_position tilt_position relative s =
     (if \<bar>pan_speed\<bar> > 24 \<or> \<bar>tilt_speed\<bar> > 24 then (Inl ValueError, s)
      else
        let pan_speed_hex = format_x 2 \<bar>pan_speed\<bar>;
            tilt_speed_hex = format_x 2 \<bar>tilt_speed\<bar>
        in case (pan_position, tilt_position) of
             (Some pp, Some tp) \<Rightarrow>
               (let md = (if relative then ''03'' else ''02'')
                in case encode_position pp of
                     Inl e \<Rightarrow> (Inl e, s)
                   | Inr ep \<Rightarrow>
                       (case encode_position tp of
                          Inl e \<Rightarrow> (Inl e, s)
                        | Inr et \<Rightarrow>
                            discard (send_command
                              (''06 '' @ md @ '' '' @ pan_speed_hex @ '' '' @ tilt_speed_hex
                                 @ '' '' @ ep @ '' '' @ et) False s)))
           | _ \<Rightarrow>
               discard (send_command
                 (''06 01 '' @ pan_speed_hex @ '' '' @ tilt_speed_hex @ '' ''
                    @ direction pan_speed @ '' '' @ direction tilt_speed) False s))"

definition pantilt_stop :: "tcp_camera \<Rightarrow> (error + unit) \<times> tcp_camera" where
  "pantilt_stop s = pantilt 0 0 None None False s"

definition pantilt_home :: "tcp_camera \<Rightarrow> (error + unit) \<times> tcp_camera" where
  "pantilt_home s = discard (send_command ''06 04'' False s)"

definition pantilt_reset :: "tcp_camera \<Rightarrow> (error + unit) \<times> tcp_camera" where
  "pantilt_reset s = discard (send_command ''06 05'' False s)"

text \<open>
  \<open>get_pantilt_position\<close>: the exception for a missing or short response is built from
  the bytes literal \<open>b"Invalid pan/tilt response"\<close>.
\<close>

definition get_pantilt_position :: "tcp_camera \<Rightarrow> (error + int \<times> int) \<times> tcp_camera" where
  "get_pantilt_position s =
     (case send_command ''06 12'' True s of
        (Inl e, s') \<Rightarrow> (Inl e, s')
      | (Inr response, s') \<Rightarrow>
          if falsy response \<or> length (the response) < 8
          then (Inl (ViscaException_init (bytes_of ''Invalid pan/tilt response'')), s')
          else
            (case decode_position (take 4 (the response)) of
               Inl e \<Rightarrow> (Inl e, s')
             | Inr pan \<Rightarrow>
                 (case decode_position (take 4 (drop 4 (the response))) of
                    Inl e \<Rightarrow> (Inl e, s')
                  | Inr tilt \<Rightarrow> (Inr (pan, tilt), s'))))"

section \<open>Zoom\<close>

definition zoom :: "int \<Rightarrow> tcp_camera \<Rightarrow> (error + unit) \<times> tcp_camera" where
  "zoom speed s =
     (if \<bar>speed\<bar> > 7 then (Inl ValueError, s)
      else
        let speed_hex = format_x 0 \<bar>speed\<bar>;
            dir = (if speed = 0 then ''0'' else if speed > 0 then ''2'' else ''3'')
        in discard (send_command (''04 07 '' @ dir @ speed_hex) False s))"

definition zoom_stop :: "tcp_camera \<Rightarrow> (error + unit) \<times> tcp_camera" where
  "zoom_stop s = zoom 0 s"

text \<open>
  Python's \<open>round\<close> with one argument: the nearest integer, a tie going to the even one.
\<close>

definition py_round :: "rat \<Rightarrow> int" where
  "py_round x =
     (let f = \<lfloor>x\<rfloor>; d = x - of_int f
      in if d < 1 / 2 then f else if d > 1 / 2 then f + 1 else if even f then f else f + 1)"

text \<open>
  \<open>zoom_to\<close>. The position is a rational number: every finite float is one, and the
  product with \<open>16384\<close>, a power of two, is exact on floats as long as it does not overflow.
\<close>

definition zoom_to :: "rat \<Rightarrow> tcp_camera \<Rightarrow> (error + unit) \<times> tcp_camera" where
  "zoom_to position s =
     (let pos_int = py_round (position * 16384);
          pos_hex = format_x 4 pos_int;
          encoded = join_space (map (\<lambda>c. [CHR ''0'', c]) pos_hex)
      in discard (send_command (''04 47 '' @ encoded) False s))"

text \<open>
  \<open>get_zoom_position\<close>: the exception for a missing or short response is built from the
  bytes literal \<open>b"Invalid zoom response"\<close>.
\<close>

definition get_zoom_position :: "tcp_camera \<Rightarrow> (error + int) \<times> tcp_camera" where
  "get_zoom_position s =
     (case send_command ''04 47'' True s of
        (Inl e, s') \<Rightarrow> (Inl e, s')
      | (Inr response, s') \<Rightarrow>
          if falsy response \<or> length (the response) < 4
          then (Inl (ViscaException_init (bytes_of ''Invalid zoom response'')), s')
          else
            let r = the response
            in (Inr (push_bit 12 (uint (r ! 0) AND 15) OR push_bit 8 (uint (r ! 1) AND 15)
                       OR push_bit 4 (uint (r ! 2) AND 15) OR (uint (r ! 3) AND 15)), s'))"

section \<open>Focus\<close>

text \<open>The dictionary \<open>modes\<close> of \<open>set_focus_mode\<close>.\<close>

definition modes :: "(string \<times> string) list" where
  "modes =
     [(''auto'', ''38 02''),
      (''manual'', ''38 03''),
      (''auto/manual'', ''38 10''),
      (''one push trigger'', ''18 01''),
      (''infinity'', ''18 02'')]"

text \<open>
  \<open>str.lower\<close> on ASCII text: \<open>A-Z\<close> (65..90) become \<open>a-z\<close>, every other character is
  kept.
\<close>

definition lower_char :: "char \<Rightarrow> char" where
  "lower_char c = (let n = (of_char c :: nat) in if 65 \<le> n \<and> n \<le> 90 then char_of (n + 32) else c)"

definition lower :: "string \<Rightarrow> string" where
  "lower s = map lower_char s"

definition set_focus_mode :: "string \<Rightarrow> tcp_camera \<Rightarrow> (error + unit) \<times> tcp_camera" where
  "set_focus_mode md s =
     (let mode_lower = lower md
      in case map_of modes mode_lower of
           None \<Rightarrow> (Inl ValueError, s)
         | Some code \<Rightarrow> discard (send_command (''04 '' @ code) False s))"

definition manual_focus :: "int \<Rightarrow> tcp_camera \<Rightarrow> (error + unit) \<times> tcp_camera" where
  "manual_focus speed s =
     (if \<bar>speed\<bar> > 7 then (Inl ValueError, s)
      else
        let speed_hex = format_x 0 \<bar>speed\<bar>;
            dir = (if speed = 0 then ''0'' else if speed > 0 then ''3'' else ''2'')
        in discard (send_command (''04 08 '' @ dir @ speed_hex) False s))"

definition get_focus_mode :: "tcp_camera \<Rightarrow> (error + string) \<times> tcp_camera" where
  "get_focus_mode s =
     (case send_command ''04 38'' True s of
        (Inl e, s') \<Rightarrow> (Inl e, s')
      | (Inr response, s') \<Rightarrow>
          if \<not> falsy response \<and> length (the response) \<ge> 1
          then (if uint (last (the response)) = 0x02 then (Inr ''auto'', s')
                else if uint (last (the response)) = 0x03 then (Inr ''manual'', s')
                else (Inr ''unknown'', s'))
          else (Inr ''unknown'', s'))"

section \<open>Presets and power\<close>

definition save_preset :: "int \<Rightarrow> tcp_camera \<Rightarrow> (error + unit) \<times> tcp_camera" where
  "save_preset preset_num s =
     (if \<not> (0 \<le> preset_num \<and> preset_num \<le> 255) then (Inl ValueError, s)
      else discard (send_command (''04 3F 01 '' @ format_x 2 preset_num) False s))"

definition recall_preset :: "int \<Rightarrow> tcp_camera \<Rightarrow> (error + unit) \<times> tcp_camera" where
  "recall_preset preset_num s =
     (if \<not> (0 \<le> preset_num \<and> preset_num \<le> 255) then (Inl ValueError, s)
      else discard (send_command (''04 3F 02 '' @ format_x 2 preset_num) False s))"

definition set_power :: "bool \<Rightarrow> tcp_camera \<Rightarrow> (error + unit) \<times> tcp_camera" where
  "set_power power_on s =
     discard (send_command (if power_on then ''04 00 02'' else ''04 00 03'') False s)"

definition get_power_status :: "tcp_camera \<Rightarrow> (error + bool) \<times> tcp_camera" where
  "get_power_status s =
     (case send_command ''04 00'' True s of
        (Inl e, s') \<Rightarrow> (Inl e, s')
      | (Inr response, s') \<Rightarrow>
          if \<not> falsy response \<and> length (the response) \<ge> 1
          then (Inr (uint (last (the response)) = 0x02), s')
          else (Inr False, s'))"

section \<open>The context manager\<close>

text \<open>\<open>__enter__\<close> connects; \<open>__exit__\<close> closes and returns \<open>False\<close>.\<close>

definition enter :: "sock_exc + socket \<Rightarrow> tcp_camera \<Rightarrow> (error + unit) \<times> tcp_camera" where
  "enter net s = discard (connect net s)"

definition exit :: "tcp_camera \<Rightarrow> (error + bool) \<times> tcp_camera" where
  "exit s =
     (case close_connection s of
        (Inl e, s') \<Rightarrow> (Inl e, s')
      | (Inr _, s') \<Rightarrow> (Inr False, s'))"

text \<open>
  The statement \<open>with TcpCamera(...) as cam: body\<close>. An exception of \<open>__enter__\<close>
  propagates and the body does not run. Otherwise \<open>__exit__\<close> runs after the body, whether
  the body raised or not; an exception of \<open>__exit__\<close> replaces the body's; the body's
  exception is swallowed only when \<open>__exit__\<close> returns a true value, and the statement then
  yields nothing.
\<close>

definition with_camera ::
  "sock_exc + socket \<Rightarrow> (tcp_camera \<Rightarrow> (error + 'a) \<times> tcp_camera) \<Rightarrow> tcp_camera
     \<Rightarrow> (error + 'a option) \<times> tcp_camera" where
  "with_camera net body s =
     (case enter net s of
        (Inl e, s1) \<Rightarrow> (Inl e, s1)
      | (Inr _, s1) \<Rightarrow>
          (case body s1 of
             (r, s2) \<Rightarrow>
               (case exit s2 of
                  (Inl e, s3) \<Rightarrow> (Inl e, s3)
                | (Inr suppress, s3) \<Rightarrow>
                    (case r of
                       Inr v \<Rightarrow> (Inr (Some v), s3)
                     | Inl e \<Rightarrow> if suppress then (Inr None, s3) else (Inl e, s3)))))"

section \<open>The fixtures of the test suite\<close>

text \<open>
  The mock socket of the tests: the first \<open>recv\<close> raises \<open>BlockingIOError\<close>, the second
  returns \<open>recv_value\<close>. The camera of the tests is \<open>TcpCamera('192.168.1.100', 5678)\<close>
  connected to it.
\<close>

definition mock_socket :: "byte list \<Rightarrow> socket" where
  "mock_socket recv_value =
     \<lparr>incoming = [Raises BlockingIOError, Data recv_value], sent = [], mode = Blocking,
      close_raises = False\<rparr>"

definition test_camera :: "byte list \<Rightarrow> tcp_camera" where
  "test_camera recv_value =
     snd (connect (Inr (mock_socket recv_value)) (init ''192.168.1.100'' 5678 2))"

section \<open>Hexadecimal text read back as bytes\<close>

lemma hexval_hexdigit: "d < 16 \<Longrightarrow> hexval (hexdigit d) = Some d"
  by (auto simp: hexval_def hexdigit_def Let_def)

lemma hexval_space: "hexval (CHR '' '') = None"
  by (simp add: hexval_def)

lemma hexdigit_not_space: "d < 16 \<Longrightarrow> hexdigit d \<noteq> CHR '' ''"
  using hexval_hexdigit [of d] hexval_space by auto

lemma hexval_zero: "hexval (CHR ''0'') = Some 0"
  by (simp add: hexval_def)

lemma format_x_nibble: "0 \<le> n \<Longrightarrow> n < 16 \<Longrightarrow> format_x 0 n = [hexdigit (nat n)]"
  by (simp add: format_x_def hexstr.simps)

lemma fromhex_nibble:
  "d < 16 \<Longrightarrow> fromhex (CHR ''0'' # hexdigit d # cs) =
     (case fromhex cs of Inl e \<Rightarrow> Inl e | Inr bs \<Rightarrow> Inr (of_nat d # bs))"
  by (simp add: hexval_hexdigit hexval_zero split: sum.splits)

lemma push_bit_or_low:
  fixes x d :: int
  assumes "0 \<le> d" "d < 2 ^ n"
  shows "push_bit n x OR d = 2 ^ n * x + d"
proof -
  have d: "take_bit n d = d"
    using assms by (simp add: take_bit_int_eq_self)
  have "push_bit n x + take_bit n d = push_bit n x OR take_bit n d"
    by (rule disjunctive_add_eq_or) (auto simp add: bit_eq_iff bit_simps)
  then have "push_bit n x OR d = push_bit n x + d"
    by (simp add: d)
  then show ?thesis
    by (simp add: push_bit_eq_mult)
qed

lemma nibbles_or:
  fixes a b c d :: int
  assumes "0 \<le> a" "a < 16" "0 \<le> b" "b < 16" "0 \<le> c" "c < 16" "0 \<le> d" "d < 16"
  shows "push_bit 12 a OR push_bit 8 b OR push_bit 4 c OR d = 4096 * a + 256 * b + 16 * c + d"
proof -
  have 1: "push_bit 4 c OR d = 16 * c + d"
    using push_bit_or_low [of d 4 c] assms by simp
  have 2: "push_bit 8 b OR (16 * c + d) = 256 * b + (16 * c + d)"
    using push_bit_or_low [of "16 * c + d" 8 b] assms by simp
  have 3: "push_bit 12 a OR (256 * b + (16 * c + d)) = 4096 * a + (256 * b + (16 * c + d))"
    using push_bit_or_low [of "256 * b + (16 * c + d)" 12 a] assms by simp
  have "push_bit 12 a OR push_bit 8 b OR push_bit 4 c OR d
        = push_bit 12 a OR (push_bit 8 b OR (push_bit 4 c OR d))"
    by (simp add: or.assoc)
  then show ?thesis
    by (simp add: 1 2 3)
qed

lemma and_15_mod: "(k::int) AND 15 = k mod 16"
proof -
  have "k AND mask 4 = k mod 2 ^ 4"
    by (simp add: take_bit_eq_mod flip: take_bit_eq_mask)
  then show ?thesis
    by (simp add: mask_eq_exp_minus_1)
qed

lemma uint_nibble: "0 \<le> n \<Longrightarrow> n < 16 \<Longrightarrow> uint (of_nat (nat n) :: byte) AND 15 = n"
  by (simp add: and_15_mod uint_word_of_int_eq take_bit_int_eq_self)

lemma encode_position_str:
  assumes "- 32768 \<le> v" "v \<le> 32767"
  shows "encode_position v =
    Inr (let u = v mod 65536 in
      [CHR ''0'', hexdigit (nat (u div 4096)), CHR '' '', CHR ''0'', hexdigit (nat (u div 256 mod 16)), CHR '' '',
       CHR ''0'', hexdigit (nat (u mod 256 div 16)), CHR '' '', CHR ''0'', hexdigit (nat (u mod 16))])"
proof -
  define u where "u = v mod 65536"
  have u: "0 \<le> u" "u < 65536" by (simp_all add: u_def)
  have a: "0 \<le> u div 256 div 16" "u div 256 div 16 < 16" "0 \<le> u div 256 mod 16" "u div 256 mod 16 < 16"
    "0 \<le> u mod 256 div 16" "u mod 256 div 16 < 16" "0 \<le> u mod 256 mod 16" "u mod 256 mod 16 < 16"
    using u by auto
  have e: "u div 256 div 16 = u div 4096" "u mod 256 mod 16 = u mod 16"
    by (simp_all add: div_mult2_eq [symmetric] mod_mod_cancel)
  show ?thesis
    using assms a
    by (simp add: encode_position_def to_bytes_2_big_signed_def Let_def drop_bit_eq_div and_15_mod
        format_x_nibble e flip: u_def)
qed

lemma nibble_sum:
  fixes u :: int
  shows "4096 * (u div 4096) + 256 * (u div 256 mod 16) + 16 * (u mod 256 div 16) + u mod 16 = u"
proof -
  have 1: "u = 256 * (u div 256) + u mod 256" by simp
  have 2: "u div 256 = 16 * (u div 256 div 16) + u div 256 mod 16" by simp
  have 3: "u mod 256 = 16 * (u mod 256 div 16) + u mod 256 mod 16" by simp
  have 4: "u div 256 div 16 = u div 4096" "u mod 256 mod 16 = u mod 16"
    by (simp_all add: div_mult2_eq [symmetric] mod_mod_cancel)
  show ?thesis using 1 2 3 4 by linarith
qed

section \<open>The position codec\<close>

text \<open>
  Claim C1. For every integer \<open>v\<close> of the signed 16-bit range, \<open>encode_position v\<close> is a
  text that \<open>bytes.fromhex\<close> reads as four bytes, each holding one nibble of the two's
  complement of \<open>v\<close> in its low four bits, most significant nibble first, and
  \<open>decode_position\<close> of these four bytes is \<open>v\<close> again.
\<close>

theorem decode_encode_position:
  assumes "- 32768 \<le> v" "v \<le> 32767"
  shows "\<exists>str bs. encode_position v = Inr str \<and> fromhex (remove_spaces str) = Inr bs
           \<and> bs = map of_int [v mod 65536 div 4096, v mod 65536 div 256 mod 16,
                               v mod 65536 mod 256 div 16, v mod 65536 mod 16]
           \<and> decode_position bs = Inr v"
proof -
  define u where "u = v mod 65536"
  have u: "0 \<le> u" "u < 65536" by (simp_all add: u_def)
  define a b c d where "a = u div 4096" and "b = u div 256 mod 16"
    and "c = u mod 256 div 16" and "d = u mod 16"
  have r: "0 \<le> a" "a < 16" "0 \<le> b" "b < 16" "0 \<le> c" "c < 16" "0 \<le> d" "d < 16"
    using u by (auto simp: a_def b_def c_def d_def)
  have n: "nat a < 16" "nat b < 16" "nat c < 16" "nat d < 16"
    using r by auto
  have enc: "encode_position v =
      Inr [CHR ''0'', hexdigit (nat a), CHR '' '', CHR ''0'', hexdigit (nat b), CHR '' '',
           CHR ''0'', hexdigit (nat c), CHR '' '', CHR ''0'', hexdigit (nat d)]"
    using encode_position_str [OF assms] by (simp add: Let_def u_def a_def b_def c_def d_def)
  have hex: "fromhex (remove_spaces
        [CHR ''0'', hexdigit (nat a), CHR '' '', CHR ''0'', hexdigit (nat b), CHR '' '',
         CHR ''0'', hexdigit (nat c), CHR '' '', CHR ''0'', hexdigit (nat d)])
      = Inr (map of_int [a, b, c, d])"
    using n r by (simp add: remove_spaces_def hexdigit_not_space fromhex_nibble del: fromhex.simps(3))
  have val: "push_bit 12 a OR push_bit 8 b OR push_bit 4 c OR d = u"
    using nibbles_or [OF r] nibble_sum [of u] by (simp add: a_def b_def c_def d_def)
  have sgn: "(if u \<ge> 32768 then u - 65536 else u) = v"
  proof (cases "0 \<le> v")
    case True
    then have "u = v" using assms by (simp add: u_def)
    then show ?thesis using assms by simp
  next
    case False
    have "(v + 65536) mod 65536 = v + 65536"
      using False assms by (intro mod_pos_pos_trivial) simp_all
    then have "u = v + 65536" by (simp add: u_def)
    then show ?thesis using False assms by simp
  qed
  have dec: "decode_position (map of_int [a, b, c, d]) = Inr v"
    using r val sgn uint_nibble [of a] uint_nibble [of b] uint_nibble [of c] uint_nibble [of d]
    by (simp add: Let_def)
  show ?thesis
    using enc hex dec by (simp add: u_def a_def b_def c_def d_def)
qed

theorem decode_encode_position_witness:
  "\<exists>str bs. encode_position (- 432) = Inr str \<and> fromhex (remove_spaces str) = Inr bs
           \<and> bs = [15, 14, 5, 0] \<and> decode_position bs = Inr (- 432)"
  using decode_encode_position [of "- 432"] by simp

section \<open>The exchange\<close>

lemma snd_discard: "snd (discard r) = snd r"
  by (cases r) (auto simp: discard_def split: sum.splits)

lemma fst_discard_Inl: "fst (discard r) = Inl e \<longleftrightarrow> fst r = Inl e"
  by (cases r) (auto simp: discard_def split: sum.splits)

lemma send_command_reply:
  assumes "sock s = Some k"
    and "fromhex (remove_spaces ((if query then ''81 09'' else ''81 01'') @ '' '' @ command_hex @ '' FF'')) = Inr bs"
    and "drain (incoming k) = Data reply # rest"
  shows "fst (send_command command_hex query s) =
           (if reply = [] then Inr None
            else if length reply \<ge> 3 \<and> uint (reply ! 1) AND 0xF0 = 0x60
              then Inl (ViscaException_init reply)
            else if query \<and> length reply > 3 then Inr (Some (drop 2 (butlast reply)))
            else Inr (Some reply))"
  using assms
  by (simp add: send_command_def flush_input_def sock_recv_def sock_send_def Let_def)

lemma send_command_sent:
  assumes "sock s = Some k"
    and "fromhex (remove_spaces ((if query then ''81 09'' else ''81 01'') @ '' '' @ command_hex @ '' FF'')) = Inr bs"
  shows "map_option sent (sock (snd (send_command command_hex query s))) = Some (sent k @ [bs])"
  using assms
  by (auto simp add: send_command_def flush_input_def sock_recv_def sock_send_def Let_def
      split: list.splits recv_event.splits sock_exc.splits)

lemma test_camera_eq:
  "test_camera rv =
     \<lparr>ip = ''192.168.1.100'', port = 5678, timeout = 2,
      sock = Some \<lparr>incoming = [Raises BlockingIOError, Data rv], sent = [],
                    mode = TimeoutMode 2, close_raises = False\<rparr>\<rparr>"
  by (simp add: test_camera_def connect_def init_def mock_socket_def)

text \<open>
  Claim C2. On a connected camera whose command text is well formed, when the read after the
  send returns \<open>reply\<close>: if \<open>reply\<close> has at least three bytes and the high nibble of its
  second byte is 6, \<open>_send_command\<close> raises \<open>ViscaException\<close> with status code
  \<open>reply[2]\<close> and the description of that code, for an action command and for an inquiry
  alike; for any other reply it raises nothing.
\<close>

theorem error_reply_raises:
  assumes "sock s = Some k"
    and "fromhex (remove_spaces ((if query then ''81 09'' else ''81 01'') @ '' '' @ command_hex @ '' FF'')) = Inr bs"
    and "drain (incoming k) = Data reply # rest"
  shows "(length reply \<ge> 3 \<and> uint (reply ! 1) AND 0xF0 = 0x60 \<longrightarrow>
            fst (send_command command_hex query s) =
              Inl (ViscaException (uint (reply ! 2))
                     (case map_of descriptions (uint (reply ! 2)) of
                        Some d \<Rightarrow> d
                      | None \<Rightarrow> ''Unknown error code 0x'' @ format_x 2 (uint (reply ! 2)))))
       \<and> (\<not> (length reply \<ge> 3 \<and> uint (reply ! 1) AND 0xF0 = 0x60) \<longrightarrow>
            (\<exists>r. fst (send_command command_hex query s) = Inr r))"
proof -
  have shape: "length reply \<ge> 3 \<and> uint (reply ! 1) AND 0xF0 = 0x60 \<Longrightarrow> reply \<noteq> []"
    by auto
  show ?thesis
    using send_command_reply [OF assms] shape
    by (auto simp: ViscaException_init_def Let_def)
qed

theorem error_reply_raises_witness:
  "fst (send_command ''06 04'' False (test_camera [0x90, 0x61, 0x02, 0xFF]))
     = Inl (ViscaException 2 ''Syntax error'')
   \<and> fst (send_command ''06 12'' True (test_camera [0x90, 0x61, 0x02, 0xFF]))
     = Inl (ViscaException 2 ''Syntax error'')"
  using error_reply_raises [of "test_camera [0x90, 0x61, 0x02, 0xFF]" _ False "''06 04''"
      "[0x81, 0x01, 0x06, 0x04, 0xFF]" "[0x90, 0x61, 0x02, 0xFF]" "[]"]
    error_reply_raises [of "test_camera [0x90, 0x61, 0x02, 0xFF]" _ True "''06 12''"
      "[0x81, 0x09, 0x06, 0x12, 0xFF]" "[0x90, 0x61, 0x02, 0xFF]" "[]"]
  by (simp add: test_camera_eq remove_spaces_def hexval_def descriptions_def)


lemma slice_2_to_last:
  "drop 2 (butlast reply) = map (\<lambda>i. reply ! i) [2 ..< length reply - 1]"
  by (rule nth_equalityI) (auto simp: nth_butlast)

text \<open>
  Claim C5. For an inquiry on a connected camera, when the read after the send returns a
  \<open>reply\<close> of more than three bytes that does not have the error shape, the caller gets
  exactly the bytes \<open>reply[2]\<close> to \<open>reply[len - 2]\<close>: the two header bytes and the
  terminator are gone. The reply \<open>90 50 01 02 03 04 FF\<close> to the zoom inquiry gives the
  payload \<open>01 02 03 04\<close>, and \<open>get_zoom_position\<close> returns \<open>0x1234\<close>.
\<close>

theorem inquiry_payload:
  assumes "sock s = Some k"
    and "fromhex (remove_spaces (''81 09'' @ '' '' @ command_hex @ '' FF'')) = Inr bs"
    and "drain (incoming k) = Data reply # rest"
    and "\<not> (length reply \<ge> 3 \<and> uint (reply ! 1) AND 0xF0 = 0x60)"
    and "length reply > 3"
  shows "fst (send_command command_hex True s)
           = Inr (Some (map (\<lambda>i. reply ! i) [2 ..< length reply - 1]))
       \<and> fst (send_command ''04 47'' True (test_camera [0x90, 0x50, 0x01, 0x02, 0x03, 0x04, 0xFF]))
           = Inr (Some [0x01, 0x02, 0x03, 0x04])
       \<and> fst (get_zoom_position (test_camera [0x90, 0x50, 0x01, 0x02, 0x03, 0x04, 0xFF]))
           = Inr 0x1234"
proof -
  have ne: "reply \<noteq> []" using assms(5) by auto
  have general: "fst (send_command command_hex True s)
           = Inr (Some (map (\<lambda>i. reply ! i) [2 ..< length reply - 1]))"
    using send_command_reply [of s k True command_hex bs reply rest] assms ne
    by (simp add: slice_2_to_last)
  have zoom_reply: "send_command ''04 47'' True (test_camera [0x90, 0x50, 0x01, 0x02, 0x03, 0x04, 0xFF])
      = (Inr (Some [0x01, 0x02, 0x03, 0x04]),
         \<lparr>ip = ''192.168.1.100'', port = 5678, timeout = 2,
          sock = Some \<lparr>incoming = [], sent = [[0x81, 0x09, 0x04, 0x47, 0xFF]],
                        mode = TimeoutMode 2, close_raises = False\<rparr>\<rparr>)"
    by (simp add: send_command_def flush_input_def sock_recv_def sock_send_def Let_def
        test_camera_eq remove_spaces_def hexval_def)
  have zoom_value: "fst (get_zoom_position (test_camera [0x90, 0x50, 0x01, 0x02, 0x03, 0x04, 0xFF]))
           = Inr 0x1234"
    by (simp add: get_zoom_position_def zoom_reply falsy_def)
  show ?thesis
    using general zoom_reply zoom_value by simp
qed

theorem inquiry_payload_witness:
  "fst (send_command ''06 12'' True
          (test_camera [0x90, 0x50, 0x00, 0x01, 0x02, 0x03, 0x0F, 0x0E, 0x05, 0x00, 0xFF]))
     = Inr (Some [0x00, 0x01, 0x02, 0x03, 0x0F, 0x0E, 0x05, 0x00])"
  using inquiry_payload [of "test_camera [0x90, 0x50, 0x00, 0x01, 0x02, 0x03, 0x0F, 0x0E, 0x05, 0x00, 0xFF]"
      _ "''06 12''" "[0x81, 0x09, 0x06, 0x12, 0xFF]"
      "[0x90, 0x50, 0x00, 0x01, 0x02, 0x03, 0x0F, 0x0E, 0x05, 0x00, 0xFF]" "[]"]
  by (simp add: test_camera_eq remove_spaces_def hexval_def upt_rec)


lemma map_of_modes_None:
  "map_of modes m = None \<longleftrightarrow>
     m \<notin> {''auto'', ''manual'', ''auto/manual'', ''one push trigger'', ''infinity''}"
  by (simp add: modes_def)

text \<open>
  Claim C3. \<open>pantilt\<close> with a speed outside \<open>-24..24\<close>, \<open>zoom\<close> and \<open>manual_focus\<close>
  with a speed outside \<open>-7..7\<close>, \<open>save_preset\<close> and \<open>recall_preset\<close> with a number
  outside \<open>0..255\<close>, and \<open>set_focus_mode\<close> with a mode that is none of the five names, raise
  \<open>ValueError\<close> and leave the camera object, its socket included, exactly as it was:
  nothing is flushed and nothing is sent.
\<close>

theorem validation_before_io:
  "(\<bar>pan_speed\<bar> > 24 \<or> \<bar>tilt_speed\<bar> > 24 \<longrightarrow>
      pantilt pan_speed tilt_speed pan_position tilt_position relative s = (Inl ValueError, s))
   \<and> (\<bar>speed\<bar> > 7 \<longrightarrow>
      zoom speed s = (Inl ValueError, s) \<and> manual_focus speed s = (Inl ValueError, s))
   \<and> (preset_num < 0 \<or> preset_num > 255 \<longrightarrow>
      save_preset preset_num s = (Inl ValueError, s)
      \<and> recall_preset preset_num s = (Inl ValueError, s))
   \<and> (lower md \<notin> {''auto'', ''manual'', ''auto/manual'', ''one push trigger'', ''infinity''} \<longrightarrow>
      set_focus_mode md s = (Inl ValueError, s))"
proof -
  have p: "\<bar>pan_speed\<bar> > 24 \<or> \<bar>tilt_speed\<bar> > 24 \<Longrightarrow>
      pantilt pan_speed tilt_speed pan_position tilt_position relative s = (Inl ValueError, s)"
    by (simp add: pantilt_def)
  have z: "\<bar>speed\<bar> > 7 \<Longrightarrow> zoom speed s = (Inl ValueError, s)"
    by (simp add: zoom_def)
  have f: "\<bar>speed\<bar> > 7 \<Longrightarrow> manual_focus speed s = (Inl ValueError, s)"
    by (simp add: manual_focus_def)
  have sp: "preset_num < 0 \<or> preset_num > 255 \<Longrightarrow> save_preset preset_num s = (Inl ValueError, s)"
    by (auto simp: save_preset_def)
  have rp: "preset_num < 0 \<or> preset_num > 255 \<Longrightarrow> recall_preset preset_num s = (Inl ValueError, s)"
    by (auto simp: recall_preset_def)
  have m: "lower md \<notin> {''auto'', ''manual'', ''auto/manual'', ''one push trigger'', ''infinity''}
      \<Longrightarrow> set_focus_mode md s = (Inl ValueError, s)"
    using map_of_modes_None [of "lower md"] by (simp add: set_focus_mode_def Let_def)
  show ?thesis
    using p z f sp rp m by blast
qed

theorem validation_before_io_witness:
  "pantilt 25 0 None None False (test_camera []) = (Inl ValueError, test_camera [])
   \<and> zoom 8 (test_camera []) = (Inl ValueError, test_camera [])
   \<and> manual_focus 8 (test_camera []) = (Inl ValueError, test_camera [])
   \<and> save_preset 256 (test_camera []) = (Inl ValueError, test_camera [])
   \<and> recall_preset 256 (test_camera []) = (Inl ValueError, test_camera [])
   \<and> set_focus_mode ''invalid'' (test_camera []) = (Inl ValueError, test_camera [])"
  using validation_before_io [of 25 0 None None False "test_camera []" 8 256 "''invalid''"]
  by (simp add: lower_def lower_char_def)

lemma close_connection_returns: "fst (close_connection t) = Inr ()"
  by (simp add: close_connection_def split: option.splits sum.splits)

lemma close_connection_sock: "sock (snd (close_connection t)) = None"
  by (simp add: close_connection_def split: option.splits sum.splits)

lemma exit_returns: "fst (exit t) = Inr False"
  using close_connection_returns [of t] by (cases "close_connection t") (simp add: exit_def)

lemma exit_sock: "sock (snd (exit t)) = None"
  using close_connection_sock [of t]
  by (cases "close_connection t") (auto simp: exit_def split: sum.splits)

lemma with_camera_sock: "sock (snd (with_camera n b s)) = None"
proof (cases n)
  case (Inl a)
  then show ?thesis
    by (simp add: with_camera_def enter_def connect_def discard_def)
next
  case (Inr a)
  obtain r s2 where b: "b (s\<lparr>sock := Some (a\<lparr>mode := TimeoutMode (timeout s)\<rparr>)\<rparr>) = (r, s2)"
    by (cases "b (s\<lparr>sock := Some (a\<lparr>mode := TimeoutMode (timeout s)\<rparr>)\<rparr>)")
  obtain q s3 where x: "exit s2 = (q, s3)" by (cases "exit s2")
  have "sock s3 = None" using exit_sock [of s2] x by simp
  then show ?thesis
    using Inr b x by (simp add: with_camera_def enter_def connect_def discard_def split: sum.splits)
qed

lemma with_camera_raises: "fst (with_camera (Inr k) (\<lambda>c. (Inl err, f c)) s) = Inl err"
proof -
  obtain s3 where x: "exit (f (s\<lparr>sock := Some (k\<lparr>mode := TimeoutMode (timeout s)\<rparr>)\<rparr>)) = (Inr False, s3)"
    using exit_returns [of "f (s\<lparr>sock := Some (k\<lparr>mode := TimeoutMode (timeout s)\<rparr>)\<rparr>)"]
    by (cases "exit (f (s\<lparr>sock := Some (k\<lparr>mode := TimeoutMode (timeout s)\<rparr>)\<rparr>))") simp
  show ?thesis
    using x by (simp add: with_camera_def enter_def connect_def discard_def)
qed

text \<open>
  Claim C6. \<open>_sock\<close> is \<open>None\<close> after \<open>__init__\<close>, after a \<open>connect\<close> that failed,
  after \<open>close_connection\<close> (called once or twice, and also when closing the socket
  raises), and after a \<open>with\<close> statement, whatever its body did and also when the body
  raised; \<open>close_connection\<close> never raises.
\<close>

theorem handle_none_lifecycle:
  "sock (init ip0 port0 timeout0) = None
   \<and> fst (connect (Inl e) s) = Inl ConnectionError
   \<and> sock (snd (connect (Inl e) s)) = None
   \<and> fst (close_connection s) = Inr ()
   \<and> sock (snd (close_connection s)) = None
   \<and> fst (close_connection (snd (close_connection s))) = Inr ()
   \<and> sock (snd (close_connection (snd (close_connection s)))) = None
   \<and> fst (close_connection (s\<lparr>sock := Some (k\<lparr>close_raises := True\<rparr>)\<rparr>)) = Inr ()
   \<and> sock (snd (close_connection (s\<lparr>sock := Some (k\<lparr>close_raises := True\<rparr>)\<rparr>))) = None
   \<and> sock (snd (with_camera net body s)) = None
   \<and> fst (with_camera (Inr k) (\<lambda>c. (Inl err, f c)) s) = Inl err
   \<and> sock (snd (with_camera (Inr k) (\<lambda>c. (Inl err, f c)) s)) = None"
  by (simp add: init_def connect_def close_connection_returns close_connection_sock
      with_camera_sock with_camera_raises)

section \<open>The queries and a response that is too short\<close>

lemmas exchange_defs = send_command_def flush_input_def sock_recv_def sock_send_def Let_def
  test_camera_eq remove_spaces_def hexval_def

lemma invalid_pantilt_exception:
  "ViscaException_init (bytes_of ''Invalid pan/tilt response'')
     = ViscaException 0x76 ''Position limit exceeded or command blocked''"
  by (simp add: ViscaException_init_def bytes_of_def descriptions_def)

lemma invalid_zoom_exception:
  "ViscaException_init (bytes_of ''Invalid zoom response'')
     = ViscaException 0x76 ''Position limit exceeded or command blocked''"
  by (simp add: ViscaException_init_def bytes_of_def descriptions_def)

lemma falsy_iff: "falsy r \<longleftrightarrow> r = None \<or> r = Some []"
  by (simp add: falsy_def split: option.splits)

text \<open>
  Claim C7, as stated, fails for the focus and power queries: when the camera answers with
  no bytes, \<open>get_focus_mode\<close> returns \<open>'unknown'\<close> and \<open>get_power_status\<close> returns
  \<open>False\<close>; neither raises.
\<close>

theorem focus_and_power_do_not_raise:
  "fst (get_focus_mode (test_camera [])) = Inr ''unknown''
   \<and> fst (get_power_status (test_camera [])) = Inr False"
  by (simp add: get_focus_mode_def get_power_status_def exchange_defs falsy_def)

text \<open>
  Claim C7, amended. When the exchange returns a response that is absent or shorter than 8
  bytes, \<open>get_pantilt_position\<close> raises \<open>ViscaException\<close>; when it is absent or shorter
  than 4 bytes, \<open>get_zoom_position\<close> raises \<open>ViscaException\<close>. When it is absent or
  empty, \<open>get_focus_mode\<close> returns \<open>'unknown'\<close> and \<open>get_power_status\<close> returns
  \<open>False\<close>, without raising.
\<close>

theorem short_payload_handling:
  "(send_command ''06 12'' True s = (Inr r, s') \<and> (r = None \<or> length (the r) < 8) \<longrightarrow>
      (\<exists>code text. get_pantilt_position s = (Inl (ViscaException code text), s')))
   \<and> (send_command ''04 47'' True s = (Inr r, s') \<and> (r = None \<or> length (the r) < 4) \<longrightarrow>
      (\<exists>code text. get_zoom_position s = (Inl (ViscaException code text), s')))
   \<and> (send_command ''04 38'' True s = (Inr r, s') \<and> (r = None \<or> r = Some []) \<longrightarrow>
      get_focus_mode s = (Inr ''unknown'', s'))
   \<and> (send_command ''04 00'' True s = (Inr r, s') \<and> (r = None \<or> r = Some []) \<longrightarrow>
      get_power_status s = (Inr False, s'))"
proof -
  have short: "r = None \<or> length (the r) < n \<Longrightarrow> falsy r \<or> length (the r) < n" for n
    by (auto simp: falsy_iff)
  have p: "send_command ''06 12'' True s = (Inr r, s') \<and> (r = None \<or> length (the r) < 8) \<Longrightarrow>
      (\<exists>code text. get_pantilt_position s = (Inl (ViscaException code text), s'))"
    using short [of 8] by (auto simp: get_pantilt_position_def invalid_pantilt_exception)
  have z: "send_command ''04 47'' True s = (Inr r, s') \<and> (r = None \<or> length (the r) < 4) \<Longrightarrow>
      (\<exists>code text. get_zoom_position s = (Inl (ViscaException code text), s'))"
    using short [of 4] by (auto simp: get_zoom_position_def invalid_zoom_exception)
  have f: "send_command ''04 38'' True s = (Inr r, s') \<and> (r = None \<or> r = Some []) \<Longrightarrow>
      get_focus_mode s = (Inr ''unknown'', s')"
    by (auto simp: get_focus_mode_def falsy_iff)
  have w: "send_command ''04 00'' True s = (Inr r, s') \<and> (r = None \<or> r = Some []) \<Longrightarrow>
      get_power_status s = (Inr False, s')"
    by (auto simp: get_power_status_def falsy_iff)
  show ?thesis
    using p z f w by blast
qed

theorem short_payload_handling_witness:
  "(\<exists>code text. fst (get_pantilt_position (test_camera [0x90, 0x50, 0x01, 0x02, 0x03, 0xFF]))
       = Inl (ViscaException code text))
   \<and> (\<exists>code text. fst (get_zoom_position (test_camera [0x90, 0x50, 0x01, 0x02, 0x03, 0xFF]))
       = Inl (ViscaException code text))
   \<and> fst (get_focus_mode (test_camera [])) = Inr ''unknown''
   \<and> fst (get_power_status (test_camera [])) = Inr False"
proof -
  let ?c = "test_camera [0x90, 0x50, 0x01, 0x02, 0x03, 0xFF]"
  let ?done = "\<lambda>bs. \<lparr>ip = ''192.168.1.100'', port = 5678, timeout = 2,
      sock = Some \<lparr>incoming = [], sent = [bs], mode = TimeoutMode 2, close_raises = False\<rparr>\<rparr>"
  have 1: "send_command ''06 12'' True ?c = (Inr (Some [0x01, 0x02, 0x03]), ?done [0x81, 0x09, 0x06, 0x12, 0xFF])"
    by (simp add: exchange_defs)
  have 2: "send_command ''04 47'' True ?c = (Inr (Some [0x01, 0x02, 0x03]), ?done [0x81, 0x09, 0x04, 0x47, 0xFF])"
    by (simp add: exchange_defs)
  have 3: "send_command ''04 38'' True (test_camera []) = (Inr None, ?done [0x81, 0x09, 0x04, 0x38, 0xFF])"
    by (simp add: exchange_defs)
  have 4: "send_command ''04 00'' True (test_camera []) = (Inr None, ?done [0x81, 0x09, 0x04, 0x00, 0xFF])"
    by (simp add: exchange_defs)
  show ?thesis
    using short_payload_handling [of ?c "Some [0x01, 0x02, 0x03]" "?done [0x81, 0x09, 0x06, 0x12, 0xFF]"]
      short_payload_handling [of ?c "Some [0x01, 0x02, 0x03]" "?done [0x81, 0x09, 0x04, 0x47, 0xFF]"]
      short_payload_handling [of "test_camera []" None "?done [0x81, 0x09, 0x04, 0x38, 0xFF]"]
      short_payload_handling [of "test_camera []" None "?done [0x81, 0x09, 0x04, 0x00, 0xFF]"]
      1 2 3 4
    by auto
qed

text \<open>
  Claim C9. The exception that \<open>get_pantilt_position\<close> and \<open>get_zoom_position\<close> raise
  for a missing or short response is a \<open>ViscaException\<close> with status code \<open>0x76\<close> and the
  description \<open>Position limit exceeded or command blocked\<close>, because the third byte of
  either message literal is the letter \<open>v\<close>, which is \<open>0x76\<close>; it is the very value the
  device error reply \<open>90 60 76 FF\<close> produces.
\<close>

theorem malformed_response_is_error_0x76:
  "(send_command ''06 12'' True s = (Inr r, s') \<and> (falsy r \<or> length (the r) < 8) \<longrightarrow>
      get_pantilt_position s
        = (Inl (ViscaException 0x76 ''Position limit exceeded or command blocked''), s'))
   \<and> (send_command ''04 47'' True s = (Inr r, s') \<and> (falsy r \<or> length (the r) < 4) \<longrightarrow>
      get_zoom_position s
        = (Inl (ViscaException 0x76 ''Position limit exceeded or command blocked''), s'))
   \<and> bytes_of ''Invalid pan/tilt response'' ! 2 = of_char (CHR ''v'')
   \<and> bytes_of ''Invalid zoom response'' ! 2 = of_char (CHR ''v'')
   \<and> (of_char (CHR ''v'') :: byte) = 0x76
   \<and> ViscaException_init [0x90, 0x60, 0x76, 0xFF]
        = ViscaException 0x76 ''Position limit exceeded or command blocked''"
proof -
  have p: "send_command ''06 12'' True s = (Inr r, s') \<and> (falsy r \<or> length (the r) < 8) \<Longrightarrow>
      get_pantilt_position s
        = (Inl (ViscaException 0x76 ''Position limit exceeded or command blocked''), s')"
    by (auto simp: get_pantilt_position_def invalid_pantilt_exception)
  have z: "send_command ''04 47'' True s = (Inr r, s') \<and> (falsy r \<or> length (the r) < 4) \<Longrightarrow>
      get_zoom_position s
        = (Inl (ViscaException 0x76 ''Position limit exceeded or command blocked''), s')"
    by (auto simp: get_zoom_position_def invalid_zoom_exception)
  have b: "bytes_of ''Invalid pan/tilt response'' ! 2 = of_char (CHR ''v'')"
    "bytes_of ''Invalid zoom response'' ! 2 = of_char (CHR ''v'')"
    "(of_char (CHR ''v'') :: byte) = 0x76"
    by (simp_all add: bytes_of_def)
  have e: "ViscaException_init [0x90, 0x60, 0x76, 0xFF]
        = ViscaException 0x76 ''Position limit exceeded or command blocked''"
    by (simp add: ViscaException_init_def descriptions_def)
  show ?thesis
    using p z b e by blast
qed

theorem malformed_response_is_error_0x76_witness:
  "fst (get_pantilt_position (test_camera [0x90, 0x50, 0x01, 0x02, 0x03, 0xFF]))
       = Inl (ViscaException 0x76 ''Position limit exceeded or command blocked'')
   \<and> fst (get_zoom_position (test_camera []))
       = Inl (ViscaException 0x76 ''Position limit exceeded or command blocked'')"
proof -
  let ?c = "test_camera [0x90, 0x50, 0x01, 0x02, 0x03, 0xFF]"
  let ?done = "\<lambda>bs. \<lparr>ip = ''192.168.1.100'', port = 5678, timeout = 2,
      sock = Some \<lparr>incoming = [], sent = [bs], mode = TimeoutMode 2, close_raises = False\<rparr>\<rparr>"
  have 1: "send_command ''06 12'' True ?c = (Inr (Some [0x01, 0x02, 0x03]), ?done [0x81, 0x09, 0x06, 0x12, 0xFF])"
    by (simp add: exchange_defs)
  have 2: "send_command ''04 47'' True (test_camera []) = (Inr None, ?done [0x81, 0x09, 0x04, 0x47, 0xFF])"
    by (simp add: exchange_defs)
  show ?thesis
    using malformed_response_is_error_0x76 [of ?c "Some [0x01, 0x02, 0x03]" "?done [0x81, 0x09, 0x06, 0x12, 0xFF]"]
      malformed_response_is_error_0x76 [of "test_camera []" None "?done [0x81, 0x09, 0x04, 0x47, 0xFF]"]
      1 2
    by (auto simp: falsy_def)
qed

section \<open>The bytes of the commands\<close>

lemma hexval_literals:
  "hexval (CHR ''1'') = Some 1" "hexval (CHR ''2'') = Some 2" "hexval (CHR ''3'') = Some 3"
  "hexval (CHR ''4'') = Some 4" "hexval (CHR ''6'') = Some 6" "hexval (CHR ''7'') = Some 7"
  "hexval (CHR ''8'') = Some 8" "hexval (CHR ''F'') = Some 15" "hexval (CHR ''-'') = None"
  by (simp_all add: hexval_def)

lemma hexdigit_0: "hexdigit 0 = CHR ''0''"
  by (rule of_char_eqI [where ?'a = nat]) (simp add: hexdigit_def)

lemma hexstr_below_16: "m < 16 \<Longrightarrow> hexstr m = [hexdigit m]"
  by (simp add: hexstr.simps)

lemma hexstr_from_16: "\<not> m < 16 \<Longrightarrow> hexstr m = hexstr (m div 16) @ [hexdigit (m mod 16)]"
  by (subst hexstr.simps) simp

lemma hexstr_below_256:
  assumes "m < 256"
  shows "hexstr m = (if m < 16 then [hexdigit m] else [hexdigit (m div 16), hexdigit (m mod 16)])"
proof (cases "m < 16")
  case True
  then show ?thesis by (simp add: hexstr_below_16)
next
  case False
  have "m div 16 < 16" using assms by simp
  then show ?thesis using False by (simp add: hexstr_from_16 hexstr_below_16)
qed

lemma format_x_2:
  assumes "0 \<le> n" "n < 256"
  shows "format_x 2 n = [hexdigit (nat n div 16), hexdigit (nat n mod 16)]"
proof -
  have "nat n < 256" using assms by simp
  then show ?thesis
    using assms by (simp add: format_x_def hexstr_below_256 hexdigit_0)
qed


lemma hexstr_below_4096:
  assumes "m < 4096"
  shows "hexstr m =
    (if m < 16 then [hexdigit m]
     else if m < 256 then [hexdigit (m div 16), hexdigit (m mod 16)]
     else [hexdigit (m div 256), hexdigit (m div 16 mod 16), hexdigit (m mod 16)])"
proof (cases "m < 256")
  case True
  then show ?thesis by (simp add: hexstr_below_256)
next
  case False
  have d: "m div 16 < 256" "\<not> m div 16 < 16" "\<not> m < 16" using assms False by simp_all
  have e: "m div 16 div 16 = m div 256" by (simp add: div_mult2_eq [symmetric])
  show ?thesis
    using False d by (simp add: hexstr_from_16 [of m] hexstr_below_256 e)
qed

lemma hexstr_below_65536:
  assumes "m < 65536"
  shows "hexstr m =
    (if m < 16 then [hexdigit m]
     else if m < 256 then [hexdigit (m div 16), hexdigit (m mod 16)]
     else if m < 4096 then [hexdigit (m div 256), hexdigit (m div 16 mod 16), hexdigit (m mod 16)]
     else [hexdigit (m div 4096), hexdigit (m div 256 mod 16), hexdigit (m div 16 mod 16),
           hexdigit (m mod 16)])"
proof (cases "m < 4096")
  case True
  then show ?thesis by (simp add: hexstr_below_4096)
next
  case False
  have d: "m div 16 < 4096" "\<not> m div 16 < 256" "\<not> m div 16 < 16" "\<not> m < 16" "\<not> m < 256"
    using assms False by simp_all
  have e: "m div 16 div 256 = m div 4096" "m div 16 div 16 = m div 256"
    by (simp_all add: div_mult2_eq [symmetric])
  show ?thesis
    using False d by (simp add: hexstr_from_16 [of m] hexstr_below_4096 e)
qed

lemma format_x_4:
  assumes "0 \<le> n" "n < 65536"
  shows "format_x 4 n = [hexdigit (nat n div 4096), hexdigit (nat n div 256 mod 16),
                          hexdigit (nat n div 16 mod 16), hexdigit (nat n mod 16)]"
proof -
  define m where "m = nat n"
  have m: "m < 65536" "\<not> n < 0" "nat \<bar>n\<bar> = m" using assms by (simp_all add: m_def)
  have pad: "replicate 3 (CHR ''0'') = ''000''" "replicate 2 (CHR ''0'') = ''00''"
    "replicate 1 (CHR ''0'') = ''0''"
    by (simp_all add: numeral_3_eq_3 numeral_2_eq_2)
  consider "m < 16" | "16 \<le> m" "m < 256" | "256 \<le> m" "m < 4096" | "4096 \<le> m"
    by linarith
  then have "format_x 4 n = [hexdigit (m div 4096), hexdigit (m div 256 mod 16),
                          hexdigit (m div 16 mod 16), hexdigit (m mod 16)]"
  proof cases
    case 1
    then show ?thesis
      using m pad by (simp add: format_x_def hexstr_below_65536 hexdigit_0)
  next
    case 2
    then show ?thesis
      using m pad by (simp add: format_x_def hexstr_below_65536 hexdigit_0)
  next
    case 3
    then show ?thesis
      using m pad by (simp add: format_x_def hexstr_below_65536 hexdigit_0)
  next
    case 4
    then show ?thesis
      using m by (simp add: format_x_def hexstr_below_65536)
  qed
  then show ?thesis by (simp add: m_def)
qed

lemma fromhex_byte:
  "h < 16 \<Longrightarrow> l < 16 \<Longrightarrow> fromhex (hexdigit h # hexdigit l # cs) =
     (case fromhex cs of Inl e \<Rightarrow> Inl e | Inr bs \<Rightarrow> Inr (of_nat (16 * h + l) # bs))"
  by (simp add: hexval_hexdigit split: sum.splits)

lemma remove_spaces_append: "remove_spaces (a @ b) = remove_spaces a @ remove_spaces b"
  by (simp add: remove_spaces_def)

lemma remove_spaces_digits:
  "h < 16 \<Longrightarrow> l < 16 \<Longrightarrow> remove_spaces [hexdigit h, hexdigit l] = [hexdigit h, hexdigit l]"
  by (simp add: remove_spaces_def hexdigit_not_space)


lemma byte_of_digits: "(of_nat (16 * (m div 16) + m mod 16) :: byte) = of_nat m"
  by simp

lemma pantilt_command_bytes:
  assumes "0 \<le> a" "a < 256" "0 \<le> b" "b < 256"
  shows "fromhex (remove_spaces (''81 01'' @ '' '' @
            (''06 01 '' @ format_x 2 a @ '' '' @ format_x 2 b @ '' ''
               @ direction p @ '' '' @ direction t) @ '' FF''))
         = Inr [0x81, 0x01, 0x06, 0x01, of_int a, of_int b,
                if p < 0 then 0x01 else if p > 0 then 0x02 else 0x03,
                if t < 0 then 0x01 else if t > 0 then 0x02 else 0x03, 0xFF]"
proof -
  have d: "nat a div 16 < 16" "nat a mod 16 < 16" "nat b div 16 < 16" "nat b mod 16 < 16"
    using assms by simp_all
  have n: "(of_nat (nat a) :: byte) = of_int a" "(of_nat (nat b) :: byte) = of_int b"
    using assms by simp_all
  show ?thesis
    using d n
    by (simp add: format_x_2 [OF assms(1,2)] format_x_2 [OF assms(3,4)] remove_spaces_def
        hexdigit_not_space hexval_literals hexval_zero hexval_hexdigit direction_def
        del: of_nat_add of_nat_mult)
qed

text \<open>
  Claim C4. On a connected camera, \<open>pantilt\<close> with both speeds in \<open>-24..24\<close> and both
  positions omitted makes exactly one \<open>send\<close> call, with the nine bytes
  \<open>81 01 06 01 |pan_speed| |tilt_speed| dir(pan_speed) dir(tilt_speed) FF\<close>, where
  \<open>dir\<close> is \<open>01\<close> for a negative speed, \<open>02\<close> for a positive one and \<open>03\<close> for zero.
  For \<open>pan_speed = 5, tilt_speed = 0\<close> these are \<open>81 01 06 01 05 00 02 03 FF\<close>.
\<close>

theorem pantilt_continuous_bytes:
  assumes "sock s = Some k"
    and "- 24 \<le> pan_speed" "pan_speed \<le> 24" "- 24 \<le> tilt_speed" "tilt_speed \<le> 24"
  shows "map_option sent (sock (snd (pantilt pan_speed tilt_speed None None relative s)))
         = Some (sent k @
             [[0x81, 0x01, 0x06, 0x01, of_int \<bar>pan_speed\<bar>, of_int \<bar>tilt_speed\<bar>,
               if pan_speed < 0 then 0x01 else if pan_speed > 0 then 0x02 else 0x03,
               if tilt_speed < 0 then 0x01 else if tilt_speed > 0 then 0x02 else 0x03,
               0xFF]])"
proof -
  have r: "0 \<le> \<bar>pan_speed\<bar>" "\<bar>pan_speed\<bar> < 256" "0 \<le> \<bar>tilt_speed\<bar>" "\<bar>tilt_speed\<bar> < 256"
    "\<not> (\<bar>pan_speed\<bar> > 24 \<or> \<bar>tilt_speed\<bar> > 24)"
    using assms by auto
  have "fromhex (remove_spaces ((if False then ''81 09'' else ''81 01'') @ '' '' @
            (''06 01 '' @ format_x 2 \<bar>pan_speed\<bar> @ '' '' @ format_x 2 \<bar>tilt_speed\<bar> @ '' ''
               @ direction pan_speed @ '' '' @ direction tilt_speed) @ '' FF''))
         = Inr [0x81, 0x01, 0x06, 0x01, of_int \<bar>pan_speed\<bar>, of_int \<bar>tilt_speed\<bar>,
                if pan_speed < 0 then 0x01 else if pan_speed > 0 then 0x02 else 0x03,
                if tilt_speed < 0 then 0x01 else if tilt_speed > 0 then 0x02 else 0x03, 0xFF]"
    using pantilt_command_bytes [OF r(1-4), of pan_speed tilt_speed] by simp
  from send_command_sent [OF assms(1) this]
  show ?thesis
    using r(5) by (simp add: pantilt_def Let_def snd_discard)
qed

theorem pantilt_continuous_bytes_witness:
  "map_option sent (sock (snd (pantilt 5 0 None None False
       (test_camera [0x90, 0x41, 0xFF, 0x90, 0x51, 0xFF]))))
     = Some [[0x81, 0x01, 0x06, 0x01, 0x05, 0x00, 0x02, 0x03, 0xFF]]
   \<and> map_option sent (sock (snd (pantilt (- 5) 0 None None False
       (test_camera [0x90, 0x41, 0xFF, 0x90, 0x51, 0xFF]))))
     = Some [[0x81, 0x01, 0x06, 0x01, 0x05, 0x00, 0x01, 0x03, 0xFF]]"
  using pantilt_continuous_bytes [of "test_camera [0x90, 0x41, 0xFF, 0x90, 0x51, 0xFF]" _ 5 0 False]
    pantilt_continuous_bytes [of "test_camera [0x90, 0x41, 0xFF, 0x90, 0x51, 0xFF]" _ "- 5" 0 False]
  by (simp add: test_camera_eq)

section \<open>Absolute zoom and the focus modes\<close>

lemma zoom_to_command_bytes:
  assumes "0 \<le> v" "v < 65536"
  shows "fromhex (remove_spaces (''81 01'' @ '' '' @
            (''04 47 '' @ join_space (map (\<lambda>c. [CHR ''0'', c]) (format_x 4 v))) @ '' FF''))
         = Inr [0x81, 0x01, 0x04, 0x47, of_int (v div 4096), of_int (v div 256 mod 16),
                of_int (v div 16 mod 16), of_int (v mod 16), 0xFF]"
proof -
  define m where "m = nat v"
  have v: "v = int m" using assms by (simp add: m_def)
  have d: "m div 4096 < 16" "m div 256 mod 16 < 16" "m div 16 mod 16 < 16" "m mod 16 < 16"
    using assms by (simp_all add: m_def)
  have i: "v div 4096 = int (m div 4096)" "v div 256 mod 16 = int (m div 256 mod 16)"
    "v div 16 mod 16 = int (m div 16 mod 16)" "v mod 16 = int (m mod 16)"
    unfolding v by (simp_all add: zdiv_int zmod_int)
  have n: "(of_int (v div 4096) :: byte) = of_nat (m div 4096)"
    "(of_int (v div 256 mod 16) :: byte) = of_nat (m div 256 mod 16)"
    "(of_int (v div 16 mod 16) :: byte) = of_nat (m div 16 mod 16)"
    "(of_int (v mod 16) :: byte) = of_nat (m mod 16)"
    unfolding i by simp_all
  show ?thesis
    unfolding n using d
    by (simp add: format_x_4 [OF assms] remove_spaces_def hexdigit_not_space hexval_literals
        hexval_zero hexval_hexdigit flip: m_def)
qed


lemma hexdigit_1: "hexdigit (Suc 0) = CHR ''1''"
  by (rule of_char_eqI [where ?'a = nat]) (simp add: hexdigit_def)

text \<open>
  Claim C8, as stated, fails above the 16-bit range: \<open>zoom_to(4.0)\<close> formats
  \<open>round(4.0 * 16384) = 65536\<close> as the five digits \<open>10000\<close> and sends five value bytes,
  \<open>81 01 04 47 01 00 00 00 00 FF\<close>.
\<close>

theorem zoom_to_overflows_four_bytes:
  "map_option sent (sock (snd (zoom_to 4 (test_camera [0x90, 0x41, 0xFF, 0x90, 0x51, 0xFF]))))
     = Some [[0x81, 0x01, 0x04, 0x47, 0x01, 0x00, 0x00, 0x00, 0x00, 0xFF]]"
proof -
  have r: "py_round 65536 = 65536"
    by (simp add: py_round_def)
  have h: "hexstr 65536 = [hexdigit 1, hexdigit 0, hexdigit 0, hexdigit 0, hexdigit 0]"
    by (simp add: hexstr_from_16 hexstr_below_16)
  have f: "format_x 4 65536 = ''10000''"
    by (simp add: format_x_def h hexdigit_0 hexdigit_1)
  have c: "fromhex (remove_spaces ((if False then ''81 09'' else ''81 01'') @ '' '' @
            (''04 47 '' @ join_space (map (\<lambda>c. [CHR ''0'', c]) ''10000'')) @ '' FF''))
         = Inr [0x81, 0x01, 0x04, 0x47, 0x01, 0x00, 0x00, 0x00, 0x00, 0xFF]"
    by (simp add: remove_spaces_def hexval_literals hexval_zero)
  have k: "sock (test_camera [0x90, 0x41, 0xFF, 0x90, 0x51, 0xFF])
      = Some \<lparr>incoming = [Raises BlockingIOError, Data [0x90, 0x41, 0xFF, 0x90, 0x51, 0xFF]],
          sent = [], mode = TimeoutMode 2, close_raises = False\<rparr>"
    by (simp add: test_camera_eq)
  from send_command_sent [OF k c]
  show ?thesis
    by (simp add: zoom_to_def Let_def snd_discard r f)
qed

text \<open>
  Claim C8, amended. On a connected camera, for every position whose scaled value
  \<open>v = round(position * 16384)\<close> lies in \<open>0..65535\<close>, \<open>zoom_to\<close> makes exactly one
  \<open>send\<close> call, with \<open>81 01 04 47\<close>, the four nibbles of \<open>v\<close> each in the low four bits
  of a byte of its own, most significant first, and \<open>FF\<close>.
\<close>

theorem zoom_to_bytes:
  assumes "sock s = Some k"
    and "0 \<le> py_round (position * 16384)" "py_round (position * 16384) \<le> 65535"
  shows "map_option sent (sock (snd (zoom_to position s)))
         = Some (sent k @
             [[0x81, 0x01, 0x04, 0x47,
               of_int (py_round (position * 16384) div 4096),
               of_int (py_round (position * 16384) div 256 mod 16),
               of_int (py_round (position * 16384) div 16 mod 16),
               of_int (py_round (position * 16384) mod 16),
               0xFF]])"
proof -
  define v where "v = py_round (position * 16384)"
  have v: "0 \<le> v" "v < 65536" using assms by (simp_all add: v_def)
  have "fromhex (remove_spaces ((if False then ''81 09'' else ''81 01'') @ '' '' @
            (''04 47 '' @ join_space (map (\<lambda>c. [CHR ''0'', c]) (format_x 4 v))) @ '' FF''))
         = Inr [0x81, 0x01, 0x04, 0x47, of_int (v div 4096), of_int (v div 256 mod 16),
                of_int (v div 16 mod 16), of_int (v mod 16), 0xFF]"
    using zoom_to_command_bytes [OF v] by simp
  from send_command_sent [OF assms(1) this]
  show ?thesis
    by (simp add: zoom_to_def Let_def snd_discard flip: v_def)
qed

theorem zoom_to_bytes_witness:
  "map_option sent (sock (snd (zoom_to (1 / 2) (test_camera [0x90, 0x41, 0xFF, 0x90, 0x51, 0xFF]))))
     = Some [[0x81, 0x01, 0x04, 0x47, 0x02, 0x00, 0x00, 0x00, 0xFF]]"
proof -
  have r: "py_round 8192 = 8192"
    by (simp add: py_round_def)
  show ?thesis
    using zoom_to_bytes [of "test_camera [0x90, 0x41, 0xFF, 0x90, 0x51, 0xFF]" _ "1 / 2"]
    by (simp add: test_camera_eq r)
qed


lemma send_command_not_ValueError:
  assumes "fromhex (remove_spaces ((if query then ''81 09'' else ''81 01'') @ '' '' @ command_hex @ '' FF'')) = Inr bs"
  shows "fst (send_command command_hex query s) \<noteq> Inl ValueError"
  using assms
  by (auto simp add: send_command_def flush_input_def sock_recv_def sock_send_def Let_def
      ViscaException_init_def
      split: option.splits list.splits recv_event.splits sock_exc.splits)

lemma focus_command_bytes:
  "fromhex (remove_spaces ((if False then ''81 09'' else ''81 01'') @ '' '' @ (''04 '' @ ''38 02'') @ '' FF''))
     = Inr [0x81, 0x01, 0x04, 0x38, 0x02, 0xFF]"
  "fromhex (remove_spaces ((if False then ''81 09'' else ''81 01'') @ '' '' @ (''04 '' @ ''38 03'') @ '' FF''))
     = Inr [0x81, 0x01, 0x04, 0x38, 0x03, 0xFF]"
  "fromhex (remove_spaces ((if False then ''81 09'' else ''81 01'') @ '' '' @ (''04 '' @ ''38 10'') @ '' FF''))
     = Inr [0x81, 0x01, 0x04, 0x38, 0x10, 0xFF]"
  "fromhex (remove_spaces ((if False then ''81 09'' else ''81 01'') @ '' '' @ (''04 '' @ ''18 01'') @ '' FF''))
     = Inr [0x81, 0x01, 0x04, 0x18, 0x01, 0xFF]"
  "fromhex (remove_spaces ((if False then ''81 09'' else ''81 01'') @ '' '' @ (''04 '' @ ''18 02'') @ '' FF''))
     = Inr [0x81, 0x01, 0x04, 0x18, 0x02, 0xFF]"
  by (simp_all add: remove_spaces_def hexval_literals hexval_zero)

lemma set_focus_mode_known:
  assumes "map_of modes (lower md) = Some code"
  shows "set_focus_mode md s = discard (send_command (''04 '' @ code) False s)"
  using assms by (simp add: set_focus_mode_def Let_def)

lemma map_of_modes_values:
  "map_of modes ''auto'' = Some ''38 02''"
  "map_of modes ''manual'' = Some ''38 03''"
  "map_of modes ''auto/manual'' = Some ''38 10''"
  "map_of modes ''one push trigger'' = Some ''18 01''"
  "map_of modes ''infinity'' = Some ''18 02''"
  by (simp_all add: modes_def)

text \<open>
  Claim C10. \<open>set_focus_mode\<close> looks its argument up in lower case: on a connected camera,
  every string whose lower-case form is one of the five mode names sends the command of
  that mode, and \<open>ValueError\<close> is raised exactly for the strings whose lower-case form is
  none of the five.
\<close>

theorem set_focus_mode_case_insensitive:
  assumes "sock s = Some k"
  shows "(lower md = ''auto'' \<longrightarrow>
            map_option sent (sock (snd (set_focus_mode md s)))
              = Some (sent k @ [[0x81, 0x01, 0x04, 0x38, 0x02, 0xFF]]))
       \<and> (lower md = ''manual'' \<longrightarrow>
            map_option sent (sock (snd (set_focus_mode md s)))
              = Some (sent k @ [[0x81, 0x01, 0x04, 0x38, 0x03, 0xFF]]))
       \<and> (lower md = ''auto/manual'' \<longrightarrow>
            map_option sent (sock (snd (set_focus_mode md s)))
              = Some (sent k @ [[0x81, 0x01, 0x04, 0x38, 0x10, 0xFF]]))
       \<and> (lower md = ''one push trigger'' \<longrightarrow>
            map_option sent (sock (snd (set_focus_mode md s)))
              = Some (sent k @ [[0x81, 0x01, 0x04, 0x18, 0x01, 0xFF]]))
       \<and> (lower md = ''infinity'' \<longrightarrow>
            map_option sent (sock (snd (set_focus_mode md s)))
              = Some (sent k @ [[0x81, 0x01, 0x04, 0x18, 0x02, 0xFF]]))
       \<and> (fst (set_focus_mode md s) = Inl ValueError \<longleftrightarrow>
            lower md \<notin> {''auto'', ''manual'', ''auto/manual'', ''one push trigger'', ''infinity''})"
proof -
  have sends: "map_option sent (sock (snd (set_focus_mode md s))) = Some (sent k @ [bs])"
    if "map_of modes (lower md) = Some code"
      and "fromhex (remove_spaces ((if False then ''81 09'' else ''81 01'') @ '' '' @ (''04 '' @ code) @ '' FF'')) = Inr bs"
    for code bs
    using send_command_sent [OF assms that(2)] set_focus_mode_known [OF that(1)]
    by (simp add: snd_discard)
  have no_error: "fst (set_focus_mode md s) \<noteq> Inl ValueError"
    if "map_of modes (lower md) = Some code"
      and "fromhex (remove_spaces ((if False then ''81 09'' else ''81 01'') @ '' '' @ (''04 '' @ code) @ '' FF'')) = Inr bs"
    for code bs
    using send_command_not_ValueError [OF that(2)] set_focus_mode_known [OF that(1)]
    by (simp add: fst_discard_Inl)
  have a: "lower md = ''auto'' \<Longrightarrow> map_option sent (sock (snd (set_focus_mode md s)))
              = Some (sent k @ [[0x81, 0x01, 0x04, 0x38, 0x02, 0xFF]])"
    using sends [OF _ focus_command_bytes(1)] by (simp add: map_of_modes_values)
  have b: "lower md = ''manual'' \<Longrightarrow> map_option sent (sock (snd (set_focus_mode md s)))
              = Some (sent k @ [[0x81, 0x01, 0x04, 0x38, 0x03, 0xFF]])"
    using sends [OF _ focus_command_bytes(2)] by (simp add: map_of_modes_values)
  have c: "lower md = ''auto/manual'' \<Longrightarrow> map_option sent (sock (snd (set_focus_mode md s)))
              = Some (sent k @ [[0x81, 0x01, 0x04, 0x38, 0x10, 0xFF]])"
    using sends [OF _ focus_command_bytes(3)] by (simp add: map_of_modes_values)
  have d: "lower md = ''one push trigger'' \<Longrightarrow> map_option sent (sock (snd (set_focus_mode md s)))
              = Some (sent k @ [[0x81, 0x01, 0x04, 0x18, 0x01, 0xFF]])"
    using sends [OF _ focus_command_bytes(4)] by (simp add: map_of_modes_values)
  have e: "lower md = ''infinity'' \<Longrightarrow> map_option sent (sock (snd (set_focus_mode md s)))
              = Some (sent k @ [[0x81, 0x01, 0x04, 0x18, 0x02, 0xFF]])"
    using sends [OF _ focus_command_bytes(5)] by (simp add: map_of_modes_values)
  have raises: "lower md \<notin> {''auto'', ''manual'', ''auto/manual'', ''one push trigger'', ''infinity''}
      \<Longrightarrow> fst (set_focus_mode md s) = Inl ValueError"
    using map_of_modes_None [of "lower md"] by (simp add: set_focus_mode_def Let_def)
  have accepted: "fst (set_focus_mode md s) \<noteq> Inl ValueError"
    if mem: "lower md \<in> {''auto'', ''manual'', ''auto/manual'', ''one push trigger'', ''infinity''}"
  proof -
    consider "lower md = ''auto''" | "lower md = ''manual''" | "lower md = ''auto/manual''"
      | "lower md = ''one push trigger''" | "lower md = ''infinity''"
      using mem by blast
    then show ?thesis
    proof cases
      case 1 then show ?thesis
        using no_error [OF _ focus_command_bytes(1)] by (simp add: map_of_modes_values)
    next
      case 2 then show ?thesis
        using no_error [OF _ focus_command_bytes(2)] by (simp add: map_of_modes_values)
    next
      case 3 then show ?thesis
        using no_error [OF _ focus_command_bytes(3)] by (simp add: map_of_modes_values)
    next
      case 4 then show ?thesis
        using no_error [OF _ focus_command_bytes(4)] by (simp add: map_of_modes_values)
    next
      case 5 then show ?thesis
        using no_error [OF _ focus_command_bytes(5)] by (simp add: map_of_modes_values)
    qed
  qed
  show ?thesis
    using a b c d e raises accepted by blast
qed

lemma char_of_eq_iff: "char_of (n::nat) = c \<longleftrightarrow> n mod 256 = of_char c"
  by (metis of_char_of char_of_char char_of_mod_256)

lemma lower_examples:
  "lower ''AUTO'' = ''auto''" "lower ''Auto/Manual'' = ''auto/manual''"
  "lower ''One Push Trigger'' = ''one push trigger''" "lower ''bogus'' = ''bogus''"
  by (simp_all add: lower_def lower_char_def char_of_eq_iff)

theorem set_focus_mode_case_insensitive_witness:
  "map_option sent (sock (snd (set_focus_mode ''AUTO'' (test_camera [0x90, 0x41, 0xFF]))))
     = Some [[0x81, 0x01, 0x04, 0x38, 0x02, 0xFF]]
   \<and> map_option sent (sock (snd (set_focus_mode ''Auto/Manual'' (test_camera [0x90, 0x41, 0xFF]))))
     = Some [[0x81, 0x01, 0x04, 0x38, 0x10, 0xFF]]
   \<and> map_option sent (sock (snd (set_focus_mode ''One Push Trigger'' (test_camera [0x90, 0x41, 0xFF]))))
     = Some [[0x81, 0x01, 0x04, 0x18, 0x01, 0xFF]]
   \<and> fst (set_focus_mode ''AUTO'' (test_camera [0x90, 0x41, 0xFF])) \<noteq> Inl ValueError
   \<and> fst (set_focus_mode ''bogus'' (test_camera [0x90, 0x41, 0xFF])) = Inl ValueError"
  using set_focus_mode_case_insensitive [of "test_camera [0x90, 0x41, 0xFF]" _ "''AUTO''"]
    set_focus_mode_case_insensitive [of "test_camera [0x90, 0x41, 0xFF]" _ "''Auto/Manual''"]
    set_focus_mode_case_insensitive [of "test_camera [0x90, 0x41, 0xFF]" _ "''One Push Trigger''"]
    set_focus_mode_case_insensitive [of "test_camera [0x90, 0x41, 0xFF]" _ "''bogus''"]
  by (simp add: test_camera_eq lower_examples)

end
